theory Spec2Isabelle
  imports Main
begin

section \<open>Values received from the backend\<close>

text \<open>
  The polling view stores whatever \<^verbatim>\<open>response.json()\<close> returns and reads a few of its
  properties. A parsed JSON value is one of the six JSON kinds; an object is the list of
  its own properties, the first entry of a name being the property. Numbers are kept as
  integers: the view only tests them for truthiness and compares the countdown with zero.
\<close>

datatype json =
    JNull
  | JBool bool
  | JNum int
  | JStr string
  | JArr "json list"
  | JObj "(string \<times> json) list"

text \<open>
  \<^verbatim>\<open>v.k\<close> for a value \<open>v\<close> that is neither \<^verbatim>\<open>null\<close> nor \<^verbatim>\<open>undefined\<close>, for the property
  names the view reads (\<^verbatim>\<open>game_status\<close>, \<^verbatim>\<open>game_completed\<close>, \<^verbatim>\<open>armed\<close>, \<^verbatim>\<open>game_started\<close>):
  \<open>None\<close> is \<^verbatim>\<open>undefined\<close>. Only an object can have such a property.
\<close>

fun member :: "json \<Rightarrow> string \<Rightarrow> json option" where
  "member (JObj kvs) k = map_of kvs k"
| "member _ k = None"

text \<open>\<^verbatim>\<open>v?.k\<close>: \<^verbatim>\<open>undefined\<close> when \<open>v\<close> is \<^verbatim>\<open>null\<close> or \<^verbatim>\<open>undefined\<close>.\<close>

fun opt_member :: "json option \<Rightarrow> string \<Rightarrow> json option" where
  "opt_member None k = None"
| "opt_member (Some JNull) k = None"
| "opt_member (Some v) k = member v k"

text \<open>JavaScript truthiness of a possibly undefined value.\<close>

fun truthy :: "json option \<Rightarrow> bool" where
  "truthy None = False"
| "truthy (Some JNull) = False"
| "truthy (Some (JBool b)) = b"
| "truthy (Some (JNum n)) = (n \<noteq> 0)"
| "truthy (Some (JStr s)) = (s \<noteq> [])"
| "truthy (Some (JArr xs)) = True"
| "truthy (Some (JObj kvs)) = True"

text \<open>
  \<^verbatim>\<open>data.game_status?.game_completed\<close>. Reading \<^verbatim>\<open>game_status\<close> of \<^verbatim>\<open>null\<close> throws a
  TypeError, which is the outer \<open>None\<close>.
\<close>

definition game_completed :: "json \<Rightarrow> json option option" where
  "game_completed data =
     (if data = JNull then None
      else Some (opt_member (member data ''game_status'') ''game_completed''))"

text \<open>
  How an awaited \<^verbatim>\<open>fetch\<close> ends: the promise rejects (network failure), or it resolves
  with a response carrying its \<^verbatim>\<open>ok\<close> flag and the result of \<^verbatim>\<open>response.json()\<close>,
  which is \<open>None\<close> when parsing the body rejects.
\<close>

datatype reply = Rejected | Resolved bool "json option"

section \<open>State of the polling view\<close>

text \<open>The calls to the four \<^verbatim>\<open>useState\<close> setters.\<close>

datatype action =
    SetError string
  | SetGameState json
  | SetSelectedDifficulty string
  | SetCurrentPage string

datatype http_method = GET | POST

text \<open>
  What resumes when a pending \<^verbatim>\<open>fetch\<close> settles: the rest of the poll callback (with the
  \<^verbatim>\<open>currentPage\<close> its closure captured), of \<^verbatim>\<open>startGame\<close>, of \<^verbatim>\<open>setDifficulty(level)\<close>
  or of \<^verbatim>\<open>resetGame\<close>.
\<close>

datatype continuation =
    AfterPoll string
  | AfterStart
  | AfterDifficulty string
  | AfterReset

text \<open>
  Work in flight: a request awaiting its response, or a \<^verbatim>\<open>setTimeout\<close> with its delay in
  milliseconds and the setter calls of its callback.
\<close>

datatype task =
    Fetch http_method string continuation
  | Timeout nat "action list"

text \<open>
  A timer made by \<^verbatim>\<open>setInterval\<close>: its id, its period in milliseconds and the
  \<^verbatim>\<open>currentPage\<close> that the callback's closure holds.
\<close>

record timer =
  tid :: nat
  delay :: nat
  closure_page :: string

record state =
  error :: string
  gameState :: json
  selectedDifficulty :: string
  currentPage :: string
  mounted :: bool
  timers :: "timer list"
  interval :: nat
  next_timer :: nat
  tasks :: "task list"

datatype view = WelcomePage | DifficultyPage | GameplayPage | ResultsPage

definition pages :: "(string \<times> view) list" where
  "pages =
     [(''welcome'', WelcomePage),
      (''difficulty'', DifficultyPage),
      (''gameplay'', GameplayPage),
      (''results'', ResultsPage)]"

text \<open>\<^verbatim>\<open>pages[currentPage] || <WelcomePage />\<close>: the second component tells whether the
  fallback was taken.\<close>

definition page_lookup :: "string \<Rightarrow> view \<times> bool" where
  "page_lookup p =
     (case map_of pages p of Some v \<Rightarrow> (v, False) | None \<Rightarrow> (WelcomePage, True))"

definition page_view :: "string \<Rightarrow> view" where
  "page_view p = fst (page_lookup p)"

text \<open>\<^verbatim>\<open>{error && <div>{error}</div>}\<close>: the text of the error box, if it is rendered.\<close>

definition banner :: "string \<Rightarrow> string option" where
  "banner e = (if e = [] then None else Some e)"

section \<open>The poll effect\<close>

definition state_url :: string where
  "state_url = ''http://127.0.0.1:5002/state''"

definition start_url :: string where
  "start_url = ''http://127.0.0.1:5002/start''"

definition reset_url :: string where
  "reset_url = ''http://127.0.0.1:5002/reset''"

definition difficulty_url :: string where
  "difficulty_url = ''http://127.0.0.1:5002/difficulty/''"

text \<open>
  The body of the effect: \<^verbatim>\<open>setInterval(callback, 1000)\<close>, whose id the cleanup keeps in
  \<^verbatim>\<open>interval\<close>. The callback sees the \<^verbatim>\<open>currentPage\<close> of the render that ran the effect.
\<close>

definition pollEffect :: "state \<Rightarrow> state" where
  "pollEffect s =
     s\<lparr>timers := timers s @ [\<lparr>tid = next_timer s, delay = 1000, closure_page = currentPage s\<rparr>],
       interval := next_timer s,
       next_timer := Suc (next_timer s)\<rparr>"

text \<open>The cleanup: \<^verbatim>\<open>clearInterval(interval)\<close>.\<close>

definition pollCleanup :: "state \<Rightarrow> state" where
  "pollCleanup s = s\<lparr>timers := filter (\<lambda>t. tid t \<noteq> interval s) (timers s)\<rparr>"

text \<open>
  The rest of the poll callback once \<^verbatim>\<open>fetch\<close> has settled, as the setter calls it makes.
  Every exception ends in the empty \<^verbatim>\<open>catch\<close>.
\<close>

definition pollResponse :: "string \<Rightarrow> reply \<Rightarrow> action list" where
  "pollResponse page r =
     (case r of
        Rejected \<Rightarrow> []
      | Resolved ok body \<Rightarrow>
          if ok then
            (case body of
               None \<Rightarrow> []
             | Some data \<Rightarrow>
                 SetGameState data #
                 (case game_completed data of
                    None \<Rightarrow> []
                  | Some c \<Rightarrow>
                      if truthy c \<and> page = ''gameplay'' then [SetCurrentPage ''results'']
                      else []))
          else [])"

section \<open>Handlers\<close>

definition lower_char :: "char \<Rightarrow> char" where
  "lower_char c =
     (case map_of (zip ''ABCDEFGHIJKLMNOPQRSTUVWXYZ'' ''abcdefghijklmnopqrstuvwxyz'') c of
        Some d \<Rightarrow> d
      | None \<Rightarrow> c)"

definition toLowerCase :: "string \<Rightarrow> string" where
  "toLowerCase w = map lower_char w"

text \<open>\<^verbatim>\<open>startGame\<close> after its request: nothing, however the request ends.\<close>

definition startGame :: "reply \<Rightarrow> action list" where
  "startGame r = []"

definition setDifficulty_request :: "string \<Rightarrow> task" where
  "setDifficulty_request level =
     Fetch POST (difficulty_url @ toLowerCase level) (AfterDifficulty level)"

text \<open>\<^verbatim>\<open>setDifficulty(level)\<close> after its request.\<close>

definition setDifficulty :: "string \<Rightarrow> reply \<Rightarrow> action list" where
  "setDifficulty level r =
     (case r of Rejected \<Rightarrow> [] | Resolved ok body \<Rightarrow> [SetSelectedDifficulty level])"

definition resetGame_request :: task where
  "resetGame_request = Fetch POST reset_url AfterReset"

text \<open>\<^verbatim>\<open>resetGame\<close> after its request.\<close>

definition resetGame :: "reply \<Rightarrow> action list" where
  "resetGame r =
     (case r of Rejected \<Rightarrow> [] | Resolved ok body \<Rightarrow> [SetCurrentPage ''welcome''])"

fun resume :: "continuation \<Rightarrow> reply \<Rightarrow> action list" where
  "resume (AfterPoll page) r = pollResponse page r"
| "resume AfterStart r = startGame r"
| "resume (AfterDifficulty level) r = setDifficulty level r"
| "resume AfterReset r = resetGame r"

text \<open>The three cards of the difficulty page.\<close>

definition levels :: "string list" where
  "levels = [''Easy'', ''Medium'', ''Hard'']"

text \<open>
  One setter call. A new \<^verbatim>\<open>currentPage\<close> re-renders and, being the effect's only
  dependency, runs the cleanup and then the effect again; the same value changes nothing.
\<close>

fun perform :: "action \<Rightarrow> state \<Rightarrow> state" where
  "perform (SetError m) s = s\<lparr>error := m\<rparr>"
| "perform (SetGameState d) s = s\<lparr>gameState := d\<rparr>"
| "perform (SetSelectedDifficulty l) s = s\<lparr>selectedDifficulty := l\<rparr>"
| "perform (SetCurrentPage p) s =
     (if p = currentPage s then s else pollEffect ((pollCleanup s)\<lparr>currentPage := p\<rparr>))"

text \<open>Setter calls in order; on an unmounted component they do nothing.\<close>

definition dispatch :: "action list \<Rightarrow> state \<Rightarrow> state" where
  "dispatch acts s = (if mounted s then fold perform acts s else s)"

text \<open>
  What can happen to the view: a click on one of its controls, the failure of the video
  image to load, a tick of the timer with a given id, the settling of the pending request
  at a position of the task list, the expiry of the timeout there, and unmounting (which
  is also what React does to a tree without an error boundary when rendering throws).
\<close>

datatype event =
    ClickStartChallenge
  | ClickLevel string
  | ClickBack
  | ClickStartGame
  | ClickStartRound
  | ClickSettings
  | ClickMainMenu
  | ClickPlayAgain
  | ImgError
  | Tick nat
  | Settle nat reply
  | Expire nat
  | Unmount

definition task_at :: "state \<Rightarrow> nat \<Rightarrow> task option" where
  "task_at s i = (if i < length (tasks s) then Some (tasks s ! i) else None)"

definition timer_with :: "state \<Rightarrow> nat \<Rightarrow> timer option" where
  "timer_with s k = find (\<lambda>t. tid t = k) (timers s)"

definition on_page :: "state \<Rightarrow> view \<Rightarrow> bool" where
  "on_page s v = (mounted s \<and> page_view (currentPage s) = v)"

text \<open>
  Whether the event can happen: the control is on the page that is rendered, the timer is
  still set, the task is still pending.
\<close>

fun available :: "state \<Rightarrow> event \<Rightarrow> bool" where
  "available s ClickStartChallenge = on_page s WelcomePage"
| "available s (ClickLevel level) = (on_page s DifficultyPage \<and> level \<in> set levels)"
| "available s ClickBack = on_page s DifficultyPage"
| "available s ClickStartGame = on_page s DifficultyPage"
| "available s ClickStartRound =
     (on_page s GameplayPage
      \<and> \<not> truthy (opt_member (Some (gameState s)) ''armed'')
      \<and> \<not> truthy (opt_member (Some (gameState s)) ''game_started''))"
| "available s ClickSettings = on_page s GameplayPage"
| "available s ClickMainMenu = on_page s ResultsPage"
| "available s ClickPlayAgain = on_page s ResultsPage"
| "available s ImgError = on_page s GameplayPage"
| "available s (Tick k) = (timer_with s k \<noteq> None)"
| "available s (Settle i r) =
     (case task_at s i of Some (Fetch m u k) \<Rightarrow> True | _ \<Rightarrow> False)"
| "available s (Expire i) =
     (case task_at s i of Some (Timeout ms acts) \<Rightarrow> True | _ \<Rightarrow> False)"
| "available s Unmount = mounted s"

text \<open>The setter calls that the event's handler makes.\<close>

fun calls :: "state \<Rightarrow> event \<Rightarrow> action list" where
  "calls s ClickStartChallenge = [SetCurrentPage ''difficulty'']"
| "calls s ClickBack = [SetCurrentPage ''welcome'']"
| "calls s ClickStartGame = [SetCurrentPage ''gameplay'']"
| "calls s ClickSettings = [SetCurrentPage ''difficulty'']"
| "calls s ImgError = [SetError ''Cannot connect to camera'']"
| "calls s (Settle i r) =
     (case task_at s i of Some (Fetch m u k) \<Rightarrow> resume k r | _ \<Rightarrow> [])"
| "calls s (Expire i) =
     (case task_at s i of Some (Timeout ms acts) \<Rightarrow> acts | _ \<Rightarrow> [])"
| "calls s e = []"

text \<open>The requests and timeouts that the event's handler starts.\<close>

fun spawns :: "state \<Rightarrow> event \<Rightarrow> task list" where
  "spawns s (ClickLevel level) = [setDifficulty_request level]"
| "spawns s ClickStartRound = [Fetch POST start_url AfterStart]"
| "spawns s ClickMainMenu = [resetGame_request]"
| "spawns s ClickPlayAgain = [resetGame_request, Timeout 100 [SetCurrentPage ''difficulty'']]"
| "spawns s (Tick k) =
     (case timer_with s k of
        Some t \<Rightarrow> [Fetch GET state_url (AfterPoll (closure_page t))]
      | None \<Rightarrow> [])"
| "spawns s e = []"

text \<open>The task that the event finishes leaves the task list.\<close>

fun finish :: "event \<Rightarrow> state \<Rightarrow> state" where
  "finish (Settle i r) s = s\<lparr>tasks := take i (tasks s) @ drop (Suc i) (tasks s)\<rparr>"
| "finish (Expire i) s = s\<lparr>tasks := take i (tasks s) @ drop (Suc i) (tasks s)\<rparr>"
| "finish e s = s"

definition unmount :: "state \<Rightarrow> state" where
  "unmount s = (pollCleanup s)\<lparr>mounted := False\<rparr>"

definition step :: "event \<Rightarrow> state \<Rightarrow> state option" where
  "step e s =
     (if \<not> available s e then None
      else if e = Unmount then Some (unmount s)
      else
        let s1 = dispatch (calls s e) (finish e s)
        in Some (s1\<lparr>tasks := tasks s1 @ spawns s e\<rparr>))"

fun run :: "event list \<Rightarrow> state \<Rightarrow> state option" where
  "run [] s = Some s"
| "run (e # es) s = (case step e s of None \<Rightarrow> None | Some s' \<Rightarrow> run es s')"

text \<open>The first render (the \<^verbatim>\<open>useState\<close> defaults) followed by the effect.\<close>

definition initial :: state where
  "initial =
     pollEffect
       \<lparr>error = [], gameState = JNull, selectedDifficulty = ''Easy'',
        currentPage = ''welcome'', mounted = True, timers = [], interval = 0,
        next_timer = 0, tasks = []\<rparr>"

section \<open>The view that only shows the stream\<close>

text \<open>\<^verbatim>\<open>web/src/Home.jsx\<close> keeps one piece of state, the error text.\<close>

definition stream_error :: string where
  "stream_error = ''Can't reach the Python stream at http://127.0.0.1:5002/video_feed''"

datatype stream_event = StreamStartGame reply | StreamImgError

fun stream_step :: "stream_event \<Rightarrow> string \<Rightarrow> string" where
  "stream_step (StreamStartGame r) e = e"
| "stream_step StreamImgError e = stream_error"

section \<open>The gesture game of the camera view\<close>

text \<open>
  The README describes a second view that classifies hand gestures in the browser and
  plays a round after a countdown. Its source file is not among the sources, so its two
  pure functions are written from the specification.
\<close>

text \<open>Modelled from the spec: the gesture enumeration of the data model.\<close>

datatype gesture = Rock | Paper | Scissors | Unknown

text \<open>
  Modelled from the spec: the five fingers whose extension the classifier counts; their
  representation in the missing source is not known.
\<close>

datatype finger = Thumb | Index | Middle | Ring | Pinky

definition fingers :: "finger list" where
  "fingers = [Thumb, Index, Middle, Ring, Pinky]"

text \<open>
  Modelled from the spec: the count of extended fingers of one landmark set. The source
  of the per-finger tip-versus-joint comparisons (and of the thumb's horizontal
  heuristic) is missing and the specification does not give them, so the comparison is
  the parameter \<open>ext\<close>; the landmark set is of any type.
\<close>

definition extended_count :: "(finger \<Rightarrow> 'l \<Rightarrow> bool) \<Rightarrow> 'l \<Rightarrow> nat" where
  "extended_count ext lm = length (filter (\<lambda>f. ext f lm) fingers)"

text \<open>
  Modelled from the spec: the gesture classifier, which is missing from the sources.
  "Zero extended fingers \<rightarrow> Rock; five \<rightarrow> Paper; exactly two (index+middle) \<rightarrow>
  Scissors; any other count \<rightarrow> Unknown."
\<close>

definition classifier :: "(finger \<Rightarrow> 'l \<Rightarrow> bool) \<Rightarrow> 'l \<Rightarrow> gesture" where
  "classifier ext lm =
     (let c = extended_count ext lm in
      if c = 0 then Rock
      else if c = 5 then Paper
      else if c = 2 \<and> ext Index lm \<and> ext Middle lm then Scissors
      else Unknown)"

text \<open>
  Modelled from the spec: the per-frame detection callback, which is missing from the
  sources. It keeps the last classified gesture: a frame without a hand gives no result,
  and Unknown is "no classification made, prior state retained".
\<close>

definition on_frame :: "(finger \<Rightarrow> 'l \<Rightarrow> bool) \<Rightarrow> gesture \<Rightarrow> 'l option \<Rightarrow> gesture" where
  "on_frame ext prior frame =
     (case frame of
        None \<Rightarrow> prior
      | Some lm \<Rightarrow> (case classifier ext lm of Unknown \<Rightarrow> prior | g \<Rightarrow> g))"

text \<open>
  Modelled from the spec: how a round ends, "player win, computer win, or draw"; the
  representation in the missing source is not known.
\<close>

datatype result = PlayerWins | ComputerWins | Draw

text \<open>
  Modelled from the spec: the beats-relation of the round, which is missing from the
  sources. "Rock beats Scissors, Scissors beats Paper, Paper beats Rock."
\<close>

definition beats :: "gesture \<Rightarrow> gesture \<Rightarrow> bool" where
  "beats a b =
     ((a = Rock \<and> b = Scissors) \<or> (a = Scissors \<and> b = Paper) \<or> (a = Paper \<and> b = Rock))"

text \<open>
  Modelled from the spec: the outcome of a round for the player's and the computer's
  choice, which is missing from the sources. "Equal choices \<rightarrow> draw."
\<close>

definition outcome :: "gesture \<Rightarrow> gesture \<Rightarrow> result" where
  "outcome player computer =
     (if player = computer then Draw
      else if beats player computer then PlayerWins
      else ComputerWins)"

text \<open>
  Modelled from the spec: the "strict opposite" of an outcome, and the three moves of
  the game. Neither is a function of the missing source; they state the property.
\<close>

fun opposite :: "result \<Rightarrow> result" where
  "opposite PlayerWins = ComputerWins"
| "opposite ComputerWins = PlayerWins"
| "opposite Draw = Draw"

definition moves :: "gesture list" where
  "moves = [Rock, Paper, Scissors]"

section \<open>Predicates used to state the properties\<close>

text \<open>
  A reply that is successful and whose \<^verbatim>\<open>game_status\<close> reports the game completed: the
  request resolved, \<^verbatim>\<open>response.ok\<close> holds, the body parsed, and
  \<^verbatim>\<open>data.game_status?.game_completed\<close> evaluated to a truthy value.
\<close>

fun reports_completed :: "reply \<Rightarrow> bool" where
  "reports_completed (Resolved ok (Some data)) =
     (ok \<and> (case game_completed data of Some c \<Rightarrow> truthy c | None \<Rightarrow> False))"
| "reports_completed r = False"

text \<open>The keys of the \<^verbatim>\<open>pages\<close> table.\<close>

definition known_page :: "string \<Rightarrow> bool" where
  "known_page p = (p \<in> set (map fst pages))"

fun names_known :: "action \<Rightarrow> bool" where
  "names_known (SetCurrentPage p) = known_page p"
| "names_known a = True"

text \<open>
  The page invariant: the current page is a key of the table, and so is every page that
  a pending timeout will set.
\<close>

definition page_inv :: "state \<Rightarrow> bool" where
  "page_inv s =
     (known_page (currentPage s)
      \<and> (\<forall>ms acts. Timeout ms acts \<in> set (tasks s) \<longrightarrow> list_all names_known acts))"

text \<open>
  The timer invariant: while the view is mounted the only timer set is the one that the
  cleanup holds, with a period of 1000 ms and the current page in its closure; once
  unmounted there is none. Timer ids are handed out in increasing order.
\<close>

definition timer_inv :: "state \<Rightarrow> bool" where
  "timer_inv s =
     ((if mounted s
       then timers s = [\<lparr>tid = interval s, delay = 1000, closure_page = currentPage s\<rparr>]
       else timers s = [])
      \<and> interval s < next_timer s)"

text \<open>A timer id that has been handed out and is no longer set.\<close>

definition retired :: "nat \<Rightarrow> state \<Rightarrow> bool" where
  "retired k s = (k < next_timer s \<and> timer_with s k = None)"

definition same_effect :: "state \<Rightarrow> state \<Rightarrow> bool" where
  "same_effect s s' =
     (timers s' = timers s \<and> currentPage s' = currentPage s \<and> interval s' = interval s
      \<and> next_timer s' = next_timer s \<and> mounted s' = mounted s)"

text \<open>States and a response body used as concrete inputs.\<close>

definition at_difficulty :: state where
  "at_difficulty =
     \<lparr>error = [], gameState = JNull, selectedDifficulty = ''Easy'',
      currentPage = ''difficulty'', mounted = True,
      timers = [\<lparr>tid = 1, delay = 1000, closure_page = ''difficulty''\<rparr>],
      interval = 1, next_timer = 2, tasks = []\<rparr>"

definition at_gameplay :: state where
  "at_gameplay =
     \<lparr>error = [], gameState = JNull, selectedDifficulty = ''Easy'',
      currentPage = ''gameplay'', mounted = True,
      timers = [\<lparr>tid = 2, delay = 1000, closure_page = ''gameplay''\<rparr>],
      interval = 2, next_timer = 3, tasks = []\<rparr>"

definition completed_body :: json where
  "completed_body = JObj [(''game_status'', JObj [(''game_completed'', JBool True)])]"

section \<open>Evaluation and auxiliary facts\<close>

lemmas eval_defs =
  step_def initial_def pollEffect_def pollCleanup_def dispatch_def on_page_def page_view_def
  page_lookup_def pages_def timer_with_def task_at_def unmount_def levels_def
  setDifficulty_request_def resetGame_request_def

lemma run_at_difficulty: "run [ClickStartChallenge] initial = Some at_difficulty"
  by (simp add: eval_defs at_difficulty_def)

lemma run_at_gameplay: "run [ClickStartChallenge, ClickStartGame] initial = Some at_gameplay"
  by (simp add: eval_defs at_gameplay_def)

lemma pollResponse_failed:
  "pollResponse page Rejected = []" "pollResponse page (Resolved False body) = []"
  by (simp_all add: pollResponse_def)

lemma pollResponse_unparsed: "pollResponse page (Resolved ok None) = []"
  by (simp add: pollResponse_def)

lemma pollResponse_parsed:
  "pollResponse page (Resolved True (Some data)) =
     SetGameState data #
     (if reports_completed (Resolved True (Some data)) \<and> page = ''gameplay''
      then [SetCurrentPage ''results''] else [])"
  by (cases "game_completed data") (simp_all add: pollResponse_def)

lemma pollResponse_navigates:
  "SetCurrentPage q \<in> set (pollResponse page r) \<longleftrightarrow>
     q = ''results'' \<and> page = ''gameplay'' \<and> reports_completed r"
proof (cases r)
  case Rejected
  then show ?thesis by (simp add: pollResponse_failed)
next
  case (Resolved ok body)
  show ?thesis
  proof (cases body)
    case None
    with Resolved show ?thesis by (simp add: pollResponse_unparsed)
  next
    case (Some data)
    show ?thesis
    proof (cases ok)
      case True
      with Resolved Some show ?thesis by (auto simp: pollResponse_parsed)
    next
      case False
      with Resolved Some show ?thesis by (simp add: pollResponse_failed)
    qed
  qed
qed

lemma dispatch_Nil: "dispatch [] s = s"
  by (simp add: dispatch_def)

lemma step_Settle:
  assumes "task_at s i = Some (Fetch m u k)"
  shows "step (Settle i r) s = Some (dispatch (resume k r) (finish (Settle i r) s))"
  using assms by (simp add: step_def Let_def)

lemma perform_keeps: "mounted (perform a s) = mounted s" "tasks (perform a s) = tasks s"
  by (cases a; simp add: pollEffect_def pollCleanup_def)+

lemma fold_perform_keeps:
  "mounted (fold perform acts s) = mounted s" "tasks (fold perform acts s) = tasks s"
  by (induction acts arbitrary: s; simp add: perform_keeps)+

lemma dispatch_keeps: "mounted (dispatch acts s) = mounted s" "tasks (dispatch acts s) = tasks s"
  by (simp_all add: dispatch_def fold_perform_keeps)

lemma perform_page_set: "currentPage (perform (SetCurrentPage p) s) = p"
  by (simp add: pollEffect_def pollCleanup_def)

lemma perform_page_others:
  "gameState (perform (SetCurrentPage p) s) = gameState s"
  "error (perform (SetCurrentPage p) s) = error s"
  "selectedDifficulty (perform (SetCurrentPage p) s) = selectedDifficulty s"
  by (simp_all add: pollEffect_def pollCleanup_def)

lemma available_error: "available (s\<lparr>error := m\<rparr>) e = available s e"
  by (cases e) (simp_all add: on_page_def timer_with_def task_at_def)

subsection \<open>The current page stays a key of the page table\<close>

lemma known_page_iff:
  "known_page p \<longleftrightarrow> p = ''welcome'' \<or> p = ''difficulty'' \<or> p = ''gameplay'' \<or> p = ''results''"
  by (auto simp: known_page_def pages_def)

lemma known_page_lookup: "known_page p \<Longrightarrow> page_lookup p = (page_view p, False)"
  by (auto simp: known_page_iff page_view_def page_lookup_def pages_def)

lemma perform_page:
  "known_page (currentPage s) \<Longrightarrow> names_known a \<Longrightarrow> known_page (currentPage (perform a s))"
  by (cases a) (simp_all add: pollEffect_def pollCleanup_def)

lemma fold_perform_page:
  "known_page (currentPage s) \<Longrightarrow> list_all names_known acts
     \<Longrightarrow> known_page (currentPage (fold perform acts s))"
  by (induction acts arbitrary: s) (simp_all add: perform_page)

lemma dispatch_page:
  "known_page (currentPage s) \<Longrightarrow> list_all names_known acts
     \<Longrightarrow> known_page (currentPage (dispatch acts s))"
  by (simp add: dispatch_def fold_perform_page)

lemma pollResponse_known: "list_all names_known (pollResponse page r)"
proof -
  have "names_known a" if "a \<in> set (pollResponse page r)" for a
  proof (cases a)
    case (SetCurrentPage q)
    with that have "q = ''results''" by (simp add: pollResponse_navigates)
    with SetCurrentPage show ?thesis by (simp add: known_page_iff)
  qed simp_all
  then show ?thesis by (simp add: list_all_iff)
qed

lemma resume_known: "list_all names_known (resume k r)"
  by (cases k; cases r)
     (simp_all add: pollResponse_known startGame_def setDifficulty_def resetGame_def known_page_iff)

lemma task_at_mem: "task_at s i = Some t \<Longrightarrow> t \<in> set (tasks s)"
  by (auto simp: task_at_def split: if_splits)

lemma calls_known:
  assumes "page_inv s" and "available s e"
  shows "list_all names_known (calls s e)"
proof (cases e)
  case (Settle i r)
  then show ?thesis
    by (simp add: resume_known split: option.splits task.splits)
next
  case (Expire i)
  with assms show ?thesis
    by (auto simp: page_inv_def dest: task_at_mem split: option.splits task.splits)
qed (simp_all add: known_page_iff)

lemma spawns_known: "Timeout ms acts \<in> set (spawns s e) \<Longrightarrow> list_all names_known acts"
  by (cases e)
     (auto simp: known_page_iff setDifficulty_request_def resetGame_request_def
           split: option.splits)

lemma finish_subset: "set (tasks (finish e s)) \<subseteq> set (tasks s)"
proof -
  have "set (take i xs @ drop (Suc i) xs) \<subseteq> set xs" for i and xs :: "task list"
    using set_take_subset [of i xs] set_drop_subset [of "Suc i" xs] by auto
  then show ?thesis by (cases e) simp_all
qed

lemma finish_page: "currentPage (finish e s) = currentPage s"
  by (cases e) simp_all

lemma step_page_inv:
  assumes "page_inv s" and "step e s = Some s'"
  shows "page_inv s'"
proof (cases "e = Unmount")
  case True
  with assms show ?thesis
    by (auto simp: step_def unmount_def pollCleanup_def page_inv_def split: if_splits)
next
  case False
  from assms(2) have av: "available s e"
    by (auto simp: step_def split: if_splits)
  let ?s1 = "dispatch (calls s e) (finish e s)"
  from assms(2) False av have s': "s' = ?s1\<lparr>tasks := tasks ?s1 @ spawns s e\<rparr>"
    by (simp add: step_def Let_def)
  have "known_page (currentPage ?s1)"
    using assms(1) av by (simp add: dispatch_page calls_known finish_page page_inv_def)
  moreover have "list_all names_known acts" if "Timeout ms acts \<in> set (tasks ?s1)" for ms acts
    using that assms(1) finish_subset [of e s] by (auto simp: dispatch_keeps page_inv_def)
  ultimately show ?thesis
    unfolding s' page_inv_def by (auto dest: spawns_known)
qed

lemma run_page_inv: "page_inv s \<Longrightarrow> run es s = Some s' \<Longrightarrow> page_inv s'"
  by (induction es arbitrary: s) (auto split: option.splits dest: step_page_inv)

lemma initial_page_inv: "page_inv initial"
  by (simp add: page_inv_def initial_def pollEffect_def known_page_iff)

subsection \<open>One timer while mounted, and cleared timers stay cleared\<close>

lemma perform_timer_inv: "timer_inv s \<Longrightarrow> mounted s \<Longrightarrow> timer_inv (perform a s)"
  by (cases a) (simp_all add: timer_inv_def pollEffect_def pollCleanup_def)

lemma perform_retired: "retired k s \<Longrightarrow> retired k (perform a s)"
  by (cases a)
     (auto simp: retired_def timer_with_def pollEffect_def pollCleanup_def find_None_iff)

lemma perform_teardown:
  assumes "timer_inv s" and "mounted s"
  shows "same_effect s (perform a s) \<or> retired (interval s) (perform a s)"
  using assms
  by (cases a)
     (auto simp: same_effect_def retired_def timer_inv_def timer_with_def pollEffect_def
        pollCleanup_def)

lemma fold_perform_teardown:
  assumes "(same_effect s0 s \<and> timer_inv s \<and> mounted s) \<or> retired (interval s0) s"
  shows "(same_effect s0 (fold perform acts s) \<and> timer_inv (fold perform acts s)
          \<and> mounted (fold perform acts s))
         \<or> retired (interval s0) (fold perform acts s)"
  using assms
proof (induction acts arbitrary: s)
  case Nil
  then show ?case by simp
next
  case (Cons a acts)
  have "(same_effect s0 (perform a s) \<and> timer_inv (perform a s) \<and> mounted (perform a s))
        \<or> retired (interval s0) (perform a s)"
  proof (cases "retired (interval s0) s")
    case True
    then show ?thesis by (simp add: perform_retired)
  next
    case False
    with Cons.prems have h: "same_effect s0 s" "timer_inv s" "mounted s" by auto
    from perform_teardown [OF h(2,3), of a] h(1) h(3)
    show ?thesis
      by (auto simp: same_effect_def perform_timer_inv [OF h(2,3)] perform_keeps)
  qed
  from Cons.IH [OF this] show ?case by simp
qed

lemma fold_perform_timer_inv:
  "timer_inv s \<Longrightarrow> mounted s \<Longrightarrow> timer_inv (fold perform acts s)"
  by (induction acts arbitrary: s) (simp_all add: perform_timer_inv perform_keeps)

lemma fold_perform_retired: "retired k s \<Longrightarrow> retired k (fold perform acts s)"
  by (induction acts arbitrary: s) (simp_all add: perform_retired)

lemma finish_timer_fields:
  "timers (finish e s) = timers s" "currentPage (finish e s) = currentPage s"
  "interval (finish e s) = interval s" "next_timer (finish e s) = next_timer s"
  "mounted (finish e s) = mounted s"
  by (cases e; simp)+

lemma step_timer_inv:
  assumes "timer_inv s" and "step e s = Some s'"
  shows "timer_inv s'"
proof (cases "e = Unmount")
  case True
  with assms show ?thesis
    by (auto simp: step_def unmount_def pollCleanup_def timer_inv_def split: if_splits)
next
  case False
  let ?s1 = "dispatch (calls s e) (finish e s)"
  from assms(2) False have s': "s' = ?s1\<lparr>tasks := tasks ?s1 @ spawns s e\<rparr>"
    by (auto simp: step_def Let_def split: if_splits)
  have f: "timer_inv (finish e s)"
    using assms(1) by (simp add: timer_inv_def finish_timer_fields)
  have "timer_inv ?s1"
    using f by (simp add: dispatch_def fold_perform_timer_inv)
  then show ?thesis unfolding s' by (simp add: timer_inv_def)
qed

lemma run_timer_inv: "timer_inv s \<Longrightarrow> run es s = Some s' \<Longrightarrow> timer_inv s'"
  by (induction es arbitrary: s) (auto split: option.splits dest: step_timer_inv)

lemma initial_timer_inv: "timer_inv initial"
  by (simp add: timer_inv_def initial_def pollEffect_def)

lemma step_retired:
  assumes "retired k s" and "step e s = Some s'"
  shows "retired k s'"
proof (cases "e = Unmount")
  case True
  with assms show ?thesis
    by (auto simp: step_def unmount_def pollCleanup_def retired_def timer_with_def
          find_None_iff split: if_splits)
next
  case False
  let ?s1 = "dispatch (calls s e) (finish e s)"
  from assms(2) False have s': "s' = ?s1\<lparr>tasks := tasks ?s1 @ spawns s e\<rparr>"
    by (auto simp: step_def Let_def split: if_splits)
  have "retired k (finish e s)"
    using assms(1) by (simp add: retired_def timer_with_def finish_timer_fields)
  then have "retired k ?s1"
    by (simp add: dispatch_def fold_perform_retired)
  then show ?thesis unfolding s' by (simp add: retired_def timer_with_def)
qed

lemma run_retired: "retired k s \<Longrightarrow> run es s = Some s' \<Longrightarrow> retired k s'"
  by (induction es arbitrary: s) (auto split: option.splits dest: step_retired)

lemma step_teardown:
  assumes "timer_inv s" and "step e s = Some s'"
    and "\<not> mounted s' \<or> currentPage s' \<noteq> currentPage s"
  shows "retired (interval s) s'"
proof (cases "e = Unmount")
  case True
  with assms(1,2) show ?thesis
    by (auto simp: step_def unmount_def pollCleanup_def retired_def timer_with_def
          timer_inv_def find_None_iff split: if_splits)
next
  case False
  let ?s1 = "dispatch (calls s e) (finish e s)"
  from assms(2) False have s': "s' = ?s1\<lparr>tasks := tasks ?s1 @ spawns s e\<rparr>"
    by (auto simp: step_def Let_def split: if_splits)
  have f: "timer_inv (finish e s)" "same_effect s (finish e s)"
    using assms(1) by (simp_all add: timer_inv_def same_effect_def finish_timer_fields)
  show ?thesis
  proof (cases "mounted s")
    case True
    then have "(same_effect s (finish e s) \<and> timer_inv (finish e s) \<and> mounted (finish e s))
               \<or> retired (interval s) (finish e s)"
      using f by (simp add: finish_timer_fields)
    from fold_perform_teardown [OF this, of "calls s e"] True
    have "(same_effect s ?s1 \<and> mounted ?s1) \<or> retired (interval s) ?s1"
      by (auto simp: dispatch_def finish_timer_fields)
    with assms(3) show ?thesis
      unfolding s' by (auto simp: same_effect_def retired_def timer_with_def)
  next
    case False
    with assms(1) have "retired (interval s) s"
      by (simp add: timer_inv_def retired_def timer_with_def)
    then show ?thesis using assms(2) by (rule step_retired)
  qed
qed

section \<open>The polling view\<close>

text \<open>
  C1 states that the only automatic page transition is from gameplay to results: a poll
  response sets the page to \<^verbatim>\<open>results\<close> exactly when it is successful, reports the
  game completed, and the current page at that moment is \<^verbatim>\<open>gameplay\<close>.

  The code does not keep to it. The callback compares the \<^verbatim>\<open>currentPage\<close> of its
  closure, not the page that is shown when the response arrives. Here the user opens the
  game, a tick starts a poll, the user goes to the settings, and then the response
  arrives: the page shown is \<^verbatim>\<open>difficulty\<close>, and the response moves it to
  \<^verbatim>\<open>results\<close>.
\<close>

theorem stale_poll_navigates:
  "map_option currentPage
     (run [ClickStartChallenge, ClickStartGame, Tick 2, ClickSettings] initial)
     = Some ''difficulty''
   \<and> map_option currentPage
     (run [ClickStartChallenge, ClickStartGame, Tick 2, ClickSettings,
           Settle 0 (Resolved True (Some completed_body))] initial)
     = Some ''results''"
  by (simp add: eval_defs state_url_def pollResponse_def game_completed_def completed_body_def)

text \<open>
  C2, as stated: a poll response that arrives after the page has changed is discarded and
  causes no state change. It does not hold: a poll started on the welcome page whose
  response arrives on the difficulty page still replaces the stored game state.
\<close>

theorem stale_poll_stored:
  "map_option currentPage (run [Tick 0] initial) = Some ''welcome''
   \<and> map_option currentPage (run [Tick 0, ClickStartChallenge] initial) = Some ''difficulty''
   \<and> map_option gameState (run [Tick 0, ClickStartChallenge] initial) = Some JNull
   \<and> map_option gameState
       (run [Tick 0, ClickStartChallenge, Settle 0 (Resolved True (Some (JObj [])))] initial)
       = Some (JObj [])"
  by (simp add: eval_defs state_url_def pollResponse_def game_completed_def)

text \<open>
  C2, amended: while the view is mounted a successful, parsed poll response is never
  discarded, whatever page is shown: its data becomes the stored game state. The page
  comparison guards the navigation only: the response of a poll whose callback was
  created on a page other than \<^verbatim>\<open>gameplay\<close> leaves the current page as it is. The error
  text and the selected difficulty are untouched by any poll response.
\<close>

theorem poll_response_effect:
  assumes "task_at s i = Some (Fetch m u (AfterPoll page))" and "mounted s"
  shows "\<exists>s'. step (Settle i r) s = Some s'
    \<and> (\<forall>data. r = Resolved True (Some data) \<longrightarrow> gameState s' = data)
    \<and> (page \<noteq> ''gameplay'' \<longrightarrow> currentPage s' = currentPage s)
    \<and> error s' = error s \<and> selectedDifficulty s' = selectedDifficulty s"
proof -
  let ?f = "finish (Settle i r) s"
  have st: "step (Settle i r) s = Some (fold perform (pollResponse page r) ?f)"
    using assms by (simp add: step_Settle dispatch_def)
  have m: "mounted ?f" using assms(2) by simp
  consider (none) "pollResponse page r = []"
    | (parsed) data where "r = Resolved True (Some data)"
  proof (cases r)
    case Rejected
    then show ?thesis using none by (simp add: pollResponse_failed)
  next
    case (Resolved ok body)
    show ?thesis
    proof (cases body)
      case None
      with Resolved show ?thesis using none by (simp add: pollResponse_unparsed)
    next
      case (Some data)
      with Resolved show ?thesis
        using none parsed by (cases ok) (simp_all add: pollResponse_failed)
    qed
  qed
  then show ?thesis
  proof cases
    case none
    then have "r \<noteq> Resolved True (Some data)" for data
      by (auto simp: pollResponse_parsed)
    with none st show ?thesis by simp
  next
    case (parsed data)
    from st have "step (Settle i r) s
        = Some (fold perform
            (SetGameState data #
             (if reports_completed (Resolved True (Some data)) \<and> page = ''gameplay''
              then [SetCurrentPage ''results''] else [])) ?f)"
      by (simp only: parsed pollResponse_parsed)
    then show ?thesis
      by (simp add: parsed perform_page_others perform_page_set del: perform.simps(4))
  qed
qed

text \<open>
  The amended C2 at a poll that was started on the welcome page and answered on the
  difficulty page.
\<close>

theorem poll_response_effect_witness:
  "task_at (at_difficulty\<lparr>tasks := [Fetch GET state_url (AfterPoll ''welcome'')]\<rparr>) 0
     = Some (Fetch GET state_url (AfterPoll ''welcome''))
   \<and> mounted (at_difficulty\<lparr>tasks := [Fetch GET state_url (AfterPoll ''welcome'')]\<rparr>)
   \<and> ''welcome'' \<noteq> ''gameplay''
   \<and> step (Settle 0 (Resolved True (Some completed_body)))
        (at_difficulty\<lparr>tasks := [Fetch GET state_url (AfterPoll ''welcome'')]\<rparr>)
     = Some (at_difficulty\<lparr>gameState := completed_body\<rparr>)"
proof -
  let ?s = "at_difficulty\<lparr>tasks := [Fetch GET state_url (AfterPoll ''welcome'')]\<rparr>"
  have t: "task_at ?s 0 = Some (Fetch GET state_url (AfterPoll ''welcome''))"
    by (simp add: task_at_def)
  have m: "mounted ?s" by (simp add: at_difficulty_def)
  from poll_response_effect [OF t m, of "Resolved True (Some completed_body)"]
  obtain s' where "step (Settle 0 (Resolved True (Some completed_body))) ?s = Some s'"
    and "gameState s' = completed_body" and "currentPage s' = currentPage ?s"
    by auto
  moreover have "step (Settle 0 (Resolved True (Some completed_body))) ?s
      = Some (at_difficulty\<lparr>gameState := completed_body\<rparr>)"
    by (simp add: eval_defs at_difficulty_def pollResponse_def game_completed_def
          completed_body_def)
  ultimately show ?thesis using t m by simp
qed

text \<open>
  C3: a failed poll (the request throws, or the response is not ok) makes no setter call:
  the stored game state, the current page, the selected difficulty and the error text,
  hence what is rendered, stay as they were. Only the pending request is gone.
\<close>

theorem poll_failure_silent:
  assumes "task_at s i = Some (Fetch m u (AfterPoll page))"
    and "r = Rejected \<or> (\<exists>body. r = Resolved False body)"
  shows "calls s (Settle i r) = []
    \<and> step (Settle i r) s = Some (s\<lparr>tasks := take i (tasks s) @ drop (Suc i) (tasks s)\<rparr>)"
  using assms by (auto simp: step_Settle pollResponse_failed dispatch_Nil)

text \<open>
  C3 at a poll pending on the gameplay page, failing in either way.
\<close>

theorem poll_failure_silent_witness:
  "task_at (at_gameplay\<lparr>tasks := [Fetch GET state_url (AfterPoll ''gameplay'')]\<rparr>) 0
     = Some (Fetch GET state_url (AfterPoll ''gameplay''))
   \<and> step (Settle 0 Rejected) (at_gameplay\<lparr>tasks := [Fetch GET state_url (AfterPoll ''gameplay'')]\<rparr>)
     = Some at_gameplay
   \<and> step (Settle 0 (Resolved False (Some completed_body)))
        (at_gameplay\<lparr>tasks := [Fetch GET state_url (AfterPoll ''gameplay'')]\<rparr>)
     = Some at_gameplay"
  using poll_failure_silent [of "at_gameplay\<lparr>tasks := [Fetch GET state_url (AfterPoll ''gameplay'')]\<rparr>"
      0 GET state_url "''gameplay''" Rejected]
    poll_failure_silent [of "at_gameplay\<lparr>tasks := [Fetch GET state_url (AfterPoll ''gameplay'')]\<rparr>"
      0 GET state_url "''gameplay''" "Resolved False (Some completed_body)"]
  by (simp add: task_at_def at_gameplay_def)

text \<open>
  C6, as stated: selecting a level makes it the cached selected difficulty. It does not
  hold when the request is rejected: the POST to \<^verbatim>\<open>/difficulty/hard\<close> is issued, and the
  selected difficulty is still \<^verbatim>\<open>Easy\<close>.
\<close>

theorem selection_lost_on_rejection:
  "map_option tasks (run [ClickStartChallenge, ClickLevel ''Hard''] initial)
     = Some [Fetch POST ''http://127.0.0.1:5002/difficulty/hard'' (AfterDifficulty ''Hard'')]
   \<and> map_option selectedDifficulty
       (run [ClickStartChallenge, ClickLevel ''Hard'', Settle 0 Rejected] initial)
     = Some ''Easy''"
  by (simp add: eval_defs difficulty_url_def toLowerCase_def lower_char_def setDifficulty_def)

text \<open>
  C6, amended: for each of the three levels, the lowercase form is one of
  \<^verbatim>\<open>easy\<close>, \<^verbatim>\<open>medium\<close>, \<^verbatim>\<open>hard\<close>; clicking the level's card issues a POST to
  \<^verbatim>\<open>/difficulty/\<close> followed by that form and changes nothing else; when the request
  settles, the selected difficulty becomes the level if the request did not throw
  (whatever the response's status) and the view is still mounted, and stays as it was
  otherwise.
\<close>

theorem setDifficulty_selects:
  assumes "level \<in> set levels"
  shows "toLowerCase level \<in> {''easy'', ''medium'', ''hard''}
    \<and> (on_page s DifficultyPage \<longrightarrow>
         step (ClickLevel level) s
           = Some (s\<lparr>tasks := tasks s @
                [Fetch POST (''http://127.0.0.1:5002/difficulty/'' @ toLowerCase level)
                   (AfterDifficulty level)]\<rparr>))
    \<and> (task_at t i = Some (Fetch m u (AfterDifficulty level)) \<longrightarrow>
         calls t (Settle i r) = (if r = Rejected then [] else [SetSelectedDifficulty level])
         \<and> (\<exists>t'. step (Settle i r) t = Some t'
              \<and> selectedDifficulty t'
                 = (if r = Rejected \<or> \<not> mounted t then selectedDifficulty t else level)))"
proof -
  have low: "toLowerCase level \<in> {''easy'', ''medium'', ''hard''}"
    using assms by (auto simp: levels_def toLowerCase_def lower_char_def)
  have click: "step (ClickLevel level) s
      = Some (s\<lparr>tasks := tasks s @
          [Fetch POST (''http://127.0.0.1:5002/difficulty/'' @ toLowerCase level)
             (AfterDifficulty level)]\<rparr>)"
    if "on_page s DifficultyPage"
    using that assms
    by (simp add: step_def dispatch_def setDifficulty_request_def difficulty_url_def)
  have settle: "calls t (Settle i r) = (if r = Rejected then [] else [SetSelectedDifficulty level])
      \<and> (\<exists>t'. step (Settle i r) t = Some t'
            \<and> selectedDifficulty t'
               = (if r = Rejected \<or> \<not> mounted t then selectedDifficulty t else level))"
    if "task_at t i = Some (Fetch m u (AfterDifficulty level))"
    using that by (cases r) (simp_all add: step_Settle setDifficulty_def dispatch_def)
  from low click settle show ?thesis by blast
qed

text \<open>
  The amended C6 at the level \<^verbatim>\<open>Medium\<close>, answered by a response that is not ok.
\<close>

theorem setDifficulty_selects_witness:
  "''Medium'' \<in> set levels \<and> toLowerCase ''Medium'' = ''medium''
   \<and> on_page at_difficulty DifficultyPage
   \<and> step (ClickLevel ''Medium'') at_difficulty
       = Some (at_difficulty\<lparr>tasks :=
            [Fetch POST ''http://127.0.0.1:5002/difficulty/medium'' (AfterDifficulty ''Medium'')]\<rparr>)
   \<and> task_at (at_difficulty\<lparr>tasks :=
            [Fetch POST ''http://127.0.0.1:5002/difficulty/medium'' (AfterDifficulty ''Medium'')]\<rparr>) 0
       = Some (Fetch POST ''http://127.0.0.1:5002/difficulty/medium'' (AfterDifficulty ''Medium''))
   \<and> calls (at_difficulty\<lparr>tasks :=
            [Fetch POST ''http://127.0.0.1:5002/difficulty/medium'' (AfterDifficulty ''Medium'')]\<rparr>)
         (Settle 0 (Resolved False None))
       = [SetSelectedDifficulty ''Medium'']"
proof -
  let ?u = "''http://127.0.0.1:5002/difficulty/medium''"
  let ?t = "at_difficulty\<lparr>tasks := [Fetch POST ?u (AfterDifficulty ''Medium'')]\<rparr>"
  have l: "''Medium'' \<in> set levels" by (simp add: levels_def)
  have low: "toLowerCase ''Medium'' = ''medium''"
    by (simp add: toLowerCase_def lower_char_def)
  have p: "on_page at_difficulty DifficultyPage"
    by (simp add: on_page_def page_view_def page_lookup_def pages_def at_difficulty_def)
  have t: "task_at ?t 0 = Some (Fetch POST ?u (AfterDifficulty ''Medium''))"
    by (simp add: task_at_def)
  from setDifficulty_selects [OF l, of at_difficulty ?t 0 POST ?u "Resolved False None"] p t low
  show ?thesis using l by (simp add: at_difficulty_def)
qed

text \<open>
  C7: when the video image fails to load, the handler sets the error text and nothing
  else; the text is not empty, so the error box is rendered with it; a second failure
  gives the same state, so there is one message; and every event that could happen before
  can still happen. The same holds in the view that only shows the stream, whose start
  button keeps working.
\<close>

theorem stream_failure_inline:
  assumes "on_page s GameplayPage"
  shows "step ImgError s = Some (s\<lparr>error := ''Cannot connect to camera''\<rparr>)
    \<and> banner ''Cannot connect to camera'' = Some ''Cannot connect to camera''
    \<and> step ImgError (s\<lparr>error := ''Cannot connect to camera''\<rparr>)
        = Some (s\<lparr>error := ''Cannot connect to camera''\<rparr>)
    \<and> (\<forall>e. available (s\<lparr>error := ''Cannot connect to camera''\<rparr>) e = available s e)
    \<and> stream_step StreamImgError shown = stream_error
    \<and> banner stream_error = Some stream_error
    \<and> stream_step StreamImgError stream_error = stream_error
    \<and> stream_step (StreamStartGame r) stream_error = stream_error"
proof -
  have m: "mounted s" using assms by (simp add: on_page_def)
  have 1: "step ImgError s = Some (s\<lparr>error := ''Cannot connect to camera''\<rparr>)"
    using assms m by (simp add: step_def dispatch_def)
  have "on_page (s\<lparr>error := ''Cannot connect to camera''\<rparr>) GameplayPage"
    using assms by (simp add: on_page_def)
  then have 2: "step ImgError (s\<lparr>error := ''Cannot connect to camera''\<rparr>)
      = Some (s\<lparr>error := ''Cannot connect to camera''\<rparr>)"
    using m by (simp add: step_def dispatch_def)
  have 3: "banner ''Cannot connect to camera'' = Some ''Cannot connect to camera''"
    "banner stream_error = Some stream_error"
    by (simp_all add: banner_def stream_error_def)
  from 1 2 3 show ?thesis by (simp add: available_error)
qed

text \<open>
  C7 on the gameplay page before any poll has answered: the settings and the start-round
  buttons are still available after the failure.
\<close>

theorem stream_failure_inline_witness:
  "on_page at_gameplay GameplayPage
   \<and> step ImgError at_gameplay = Some (at_gameplay\<lparr>error := ''Cannot connect to camera''\<rparr>)
   \<and> available (at_gameplay\<lparr>error := ''Cannot connect to camera''\<rparr>) ClickSettings
   \<and> available (at_gameplay\<lparr>error := ''Cannot connect to camera''\<rparr>) ClickStartRound
   \<and> stream_step StreamImgError [] = stream_error"
proof -
  have p: "on_page at_gameplay GameplayPage"
    by (simp add: on_page_def page_view_def page_lookup_def pages_def at_gameplay_def)
  have a: "available at_gameplay ClickSettings" "available at_gameplay ClickStartRound"
    using p by (simp_all add: at_gameplay_def)
  from stream_failure_inline [OF p, of "[]" Rejected] a p show ?thesis
    by (simp add: on_page_def)
qed

text \<open>
  C8: in every reachable state of the mounted view exactly one poll timer is set, with a
  period of 1000 ms, and none after unmounting; and once a step has torn the effect down
  (the view is unmounted or the current page has changed), the timer that was set before
  the step never ticks again, whatever happens afterwards.
\<close>

theorem poll_timer_lifecycle:
  assumes "run es initial = Some s"
  shows "(if mounted s
          then timers s = [\<lparr>tid = interval s, delay = 1000, closure_page = currentPage s\<rparr>]
          else timers s = [])
    \<and> (\<forall>e s' es' s''.
          step e s = Some s' \<and> (\<not> mounted s' \<or> currentPage s' \<noteq> currentPage s)
          \<and> run es' s' = Some s''
          \<longrightarrow> \<not> available s'' (Tick (interval s)))"
proof -
  have inv: "timer_inv s"
    using assms initial_timer_inv run_timer_inv by blast
  have "\<not> available s'' (Tick (interval s))"
    if "step e s = Some s'" and "\<not> mounted s' \<or> currentPage s' \<noteq> currentPage s"
      and "run es' s' = Some s''" for e s' es' s''
  proof -
    have "retired (interval s) s'" using inv that(1,2) by (rule step_teardown)
    then have "retired (interval s) s''" using that(3) by (rule run_retired)
    then show ?thesis by (simp add: retired_def)
  qed
  with inv show ?thesis unfolding timer_inv_def by blast
qed

text \<open>
  C8 at the first click: the timer of the welcome page, with id 0, cannot tick on the
  difficulty page, whose own timer has id 1.
\<close>

theorem poll_timer_lifecycle_witness:
  "run [] initial = Some initial
   \<and> timers initial = [\<lparr>tid = 0, delay = 1000, closure_page = ''welcome''\<rparr>]
   \<and> step ClickStartChallenge initial = Some at_difficulty
   \<and> currentPage at_difficulty \<noteq> currentPage initial
   \<and> run [] at_difficulty = Some at_difficulty
   \<and> \<not> available at_difficulty (Tick (interval initial))
   \<and> available at_difficulty (Tick 1)"
proof -
  have r: "run [] initial = Some initial" by simp
  have s: "step ClickStartChallenge initial = Some at_difficulty"
    using run_at_difficulty by (simp split: option.splits)
  have c: "currentPage at_difficulty \<noteq> currentPage initial"
    by (simp add: at_difficulty_def initial_def pollEffect_def)
  have "step ClickStartChallenge initial = Some at_difficulty
      \<and> (\<not> mounted at_difficulty \<or> currentPage at_difficulty \<noteq> currentPage initial)
      \<and> run [] at_difficulty = Some at_difficulty
      \<longrightarrow> \<not> available at_difficulty (Tick (interval initial))"
    using poll_timer_lifecycle [OF r] by blast
  with s c have "\<not> available at_difficulty (Tick (interval initial))"
    by simp
  moreover have "timers initial = [\<lparr>tid = 0, delay = 1000, closure_page = ''welcome''\<rparr>]"
    using poll_timer_lifecycle [OF r] by (simp add: initial_def pollEffect_def)
  moreover have "available at_difficulty (Tick 1)"
    by (simp add: at_difficulty_def timer_with_def)
  ultimately show ?thesis using r s c by simp
qed

text \<open>
  C9: when the request of \<^verbatim>\<open>resetGame\<close> settles, the handler calls
  \<^verbatim>\<open>setCurrentPage('welcome')\<close> if the request did not throw and makes no call if it
  threw; so the page after the step is \<^verbatim>\<open>welcome\<close> in the first case (on a mounted view)
  and unchanged in the second.
\<close>

theorem resetGame_atomic:
  assumes "task_at s i = Some (Fetch m u AfterReset)"
  shows "calls s (Settle i r) = (if r = Rejected then [] else [SetCurrentPage ''welcome''])
    \<and> (\<exists>s'. step (Settle i r) s = Some s'
          \<and> currentPage s' = (if r = Rejected \<or> \<not> mounted s then currentPage s else ''welcome''))"
proof (cases r)
  case Rejected
  with assms show ?thesis
    by (simp add: step_Settle resetGame_def dispatch_Nil)
next
  case (Resolved ok body)
  with assms show ?thesis
    by (simp add: step_Settle resetGame_def dispatch_def perform_page_set
          del: perform.simps)
qed

text \<open>
  C9 at a reset pending on the results page: rejected, and answered with a response that
  is not ok.
\<close>

theorem resetGame_atomic_witness:
  "task_at (at_gameplay\<lparr>currentPage := ''results'', tasks := [Fetch POST reset_url AfterReset]\<rparr>) 0
     = Some (Fetch POST reset_url AfterReset)
   \<and> map_option currentPage
       (step (Settle 0 Rejected)
          (at_gameplay\<lparr>currentPage := ''results'', tasks := [Fetch POST reset_url AfterReset]\<rparr>))
     = Some ''results''
   \<and> map_option currentPage
       (step (Settle 0 (Resolved False None))
          (at_gameplay\<lparr>currentPage := ''results'', tasks := [Fetch POST reset_url AfterReset]\<rparr>))
     = Some ''welcome''"
proof -
  let ?s = "at_gameplay\<lparr>currentPage := ''results'', tasks := [Fetch POST reset_url AfterReset]\<rparr>"
  have t: "task_at ?s 0 = Some (Fetch POST reset_url AfterReset)"
    by (simp add: task_at_def)
  have m: "mounted ?s" by (simp add: at_gameplay_def)
  from resetGame_atomic [OF t, of Rejected] resetGame_atomic [OF t, of "Resolved False None"] t m
  show ?thesis by auto
qed

text \<open>
  C10: the page starts as \<^verbatim>\<open>welcome\<close>; in every reachable state it is one of the four
  keys of the page table, so the lookup finds a view without taking the fallback; and
  every \<^verbatim>\<open>setCurrentPage\<close> call that an event can make there passes one of the four
  keys.
\<close>

theorem page_always_known:
  assumes "run es initial = Some s"
  shows "currentPage initial = ''welcome''
    \<and> currentPage s \<in> {''welcome'', ''difficulty'', ''gameplay'', ''results''}
    \<and> page_lookup (currentPage s) = (page_view (currentPage s), False)
    \<and> (\<forall>e p. available s e \<and> SetCurrentPage p \<in> set (calls s e)
          \<longrightarrow> p \<in> {''welcome'', ''difficulty'', ''gameplay'', ''results''})"
proof -
  have inv: "page_inv s"
    using assms initial_page_inv run_page_inv by blast
  then have "known_page (currentPage s)" by (simp add: page_inv_def)
  moreover have "known_page p" if "available s e" and "SetCurrentPage p \<in> set (calls s e)" for e p
  proof -
    have "list_all names_known (calls s e)" using inv that(1) by (rule calls_known)
    with that(2) have "names_known (SetCurrentPage p)" by (auto simp: list_all_iff)
    then show ?thesis by simp
  qed
  moreover have "currentPage initial = ''welcome''"
    by (simp add: initial_def pollEffect_def)
  ultimately show ?thesis
    by (auto simp: known_page_lookup known_page_iff)
qed

text \<open>
  C10 after the two clicks that lead to the gameplay page.
\<close>

theorem page_always_known_witness:
  "run [ClickStartChallenge, ClickStartGame] initial = Some at_gameplay
   \<and> currentPage at_gameplay = ''gameplay''
   \<and> page_lookup ''gameplay'' = (GameplayPage, False)
   \<and> available at_gameplay ClickSettings
   \<and> SetCurrentPage ''difficulty'' \<in> set (calls at_gameplay ClickSettings)"
proof -
  have c: "currentPage at_gameplay = ''gameplay''" by (simp add: at_gameplay_def)
  have a: "available at_gameplay ClickSettings"
    by (simp add: on_page_def page_view_def page_lookup_def pages_def at_gameplay_def)
  have v: "page_view ''gameplay'' = GameplayPage"
    by (simp add: page_view_def page_lookup_def pages_def)
  from page_always_known [OF run_at_gameplay] c a v run_at_gameplay
  show ?thesis by simp
qed

section \<open>The gesture game\<close>

text \<open>
  C4: the round outcome gives a result for every pair of moves; Rock against Scissors,
  Scissors against Paper and Paper against Rock are wins of the player; equal moves are a
  draw; and for different moves the outcome is a win or a loss and is the opposite of the
  outcome with the moves exchanged.
\<close>

theorem outcome_rps:
  "outcome Rock Scissors = PlayerWins \<and> outcome Scissors Paper = PlayerWins
   \<and> outcome Paper Rock = PlayerWins
   \<and> (\<forall>a \<in> set moves. \<forall>b \<in> set moves. outcome a b \<in> {PlayerWins, ComputerWins, Draw})
   \<and> (\<forall>x \<in> set moves. outcome x x = Draw)
   \<and> (\<forall>a \<in> set moves. \<forall>b \<in> set moves. a \<noteq> b \<longrightarrow>
        outcome a b \<noteq> Draw \<and> outcome a b = opposite (outcome b a))"
  by (simp add: outcome_def beats_def moves_def)

text \<open>
  C4 at Rock against Paper.
\<close>

theorem outcome_rps_witness:
  "Rock \<in> set moves \<and> Paper \<in> set moves \<and> Rock \<noteq> Paper
   \<and> outcome Rock Paper = ComputerWins \<and> outcome Paper Rock = PlayerWins
   \<and> outcome Rock Paper = opposite (outcome Paper Rock) \<and> outcome Paper Paper = Draw"
  using outcome_rps by (simp add: moves_def)

text \<open>
  C5: for every landmark set, a count of zero extended fingers classifies as Rock, five
  as Paper, two with index and middle extended as Scissors, and everything else as
  Unknown: any count other than zero, two and five, and also two extended fingers that
  are not the index and the middle finger. On Unknown the frame leaves the last
  classified gesture as it was, and otherwise replaces it by the classification.
\<close>

theorem classifier_counts:
  "(extended_count ext lm = 0 \<longrightarrow> classifier ext lm = Rock)
   \<and> (extended_count ext lm = 5 \<longrightarrow> classifier ext lm = Paper)
   \<and> (extended_count ext lm = 2 \<and> ext Index lm \<and> ext Middle lm \<longrightarrow> classifier ext lm = Scissors)
   \<and> (extended_count ext lm \<notin> {0, 2, 5} \<longrightarrow> classifier ext lm = Unknown)
   \<and> (extended_count ext lm \<noteq> 0 \<and> extended_count ext lm \<noteq> 5
        \<and> \<not> (extended_count ext lm = 2 \<and> ext Index lm \<and> ext Middle lm)
        \<longrightarrow> classifier ext lm = Unknown)
   \<and> (classifier ext lm = Unknown \<longrightarrow> on_frame ext prior (Some lm) = prior)
   \<and> (classifier ext lm \<noteq> Unknown \<longrightarrow> on_frame ext prior (Some lm) = classifier ext lm)"
  by (auto simp: classifier_def on_frame_def Let_def split: gesture.splits)

text \<open>
  C5 with a landmark set given as the list of its extended fingers: none, all five,
  index and middle, index alone, and thumb and pinky (two fingers, not a Scissors).
\<close>

theorem classifier_counts_witness:
  "extended_count (\<lambda>f lm. f \<in> set lm) [] = 0 \<and> classifier (\<lambda>f lm. f \<in> set lm) [] = Rock
  \<and> extended_count (\<lambda>f lm. f \<in> set lm) [Thumb, Index, Middle, Ring, Pinky] = 5
  \<and> classifier (\<lambda>f lm. f \<in> set lm) [Thumb, Index, Middle, Ring, Pinky] = Paper
  \<and> extended_count (\<lambda>f lm. f \<in> set lm) [Index, Middle] = 2
  \<and> classifier (\<lambda>f lm. f \<in> set lm) [Index, Middle] = Scissors
  \<and> extended_count (\<lambda>f lm. f \<in> set lm) [Index] \<notin> {0, 2, 5}
  \<and> classifier (\<lambda>f lm. f \<in> set lm) [Index] = Unknown
  \<and> on_frame (\<lambda>f lm. f \<in> set lm) Paper (Some [Index]) = Paper
  \<and> on_frame (\<lambda>f lm. f \<in> set lm) Paper (Some []) = Rock
  \<and> extended_count (\<lambda>f lm. f \<in> set lm) [Thumb, Pinky] = 2
  \<and> \<not> (Index \<in> set [Thumb, Pinky] \<and> Middle \<in> set [Thumb, Pinky])
  \<and> classifier (\<lambda>f lm. f \<in> set lm) [Thumb, Pinky] = Unknown
  \<and> on_frame (\<lambda>f lm. f \<in> set lm) Paper (Some [Thumb, Pinky]) = Paper"
  using classifier_counts [of "\<lambda>f lm. f \<in> set lm" "[]" Paper]
    classifier_counts [of "\<lambda>f lm. f \<in> set lm" "[Thumb, Index, Middle, Ring, Pinky]" Paper]
    classifier_counts [of "\<lambda>f lm. f \<in> set lm" "[Index, Middle]" Paper]
    classifier_counts [of "\<lambda>f lm. f \<in> set lm" "[Index]" Paper]
    classifier_counts [of "\<lambda>f lm. f \<in> set lm" "[Thumb, Pinky]" Paper]
  by (simp add: extended_count_def fingers_def)

end
